theory Spec2Isabelle
  imports Main "HOL-Library.Sublist"
begin

section \<open>The authenticating proxy of \<open>src/server/server.mjs\<close>\<close>

text \<open>
  The development follows \<open>server.mjs\<close> function by function. JavaScript strings are
  modelled as \<open>string\<close>, times as \<open>int\<close> milliseconds since the epoch (what
  \<open>Date.now()\<close> and \<open>getTime()\<close> return), exceptions and rejected promises as the
  left summand of a sum type, and the module-level variables \<open>globalAuthValue\<close> and
  \<open>globalAuthExpiry\<close> as a record that every function takes and returns.
\<close>

subsection \<open>Errors\<close>

text \<open>
  \<open>ConfigError\<close> is the \<open>Error\<close> thrown by \<open>commandArgument\<close>, with its message.
  The next four are what can make \<open>getBearerAuth\<close> throw: building the request
  (\<open>new URL\<close>, \<open>encodeURIComponent\<close>), \<open>fetch\<close> rejecting, \<open>response.json()\<close>
  rejecting, and destructuring a \<open>null\<close> body. \<open>InvalidRequest\<close> is \<open>http.request\<close> or
  \<open>https.request\<close> throwing in \<open>executeRequest\<close>.
\<close>

datatype error =
    ConfigError string
  | RequestBuildError
  | FetchError
  | JsonParseError
  | TypeError
  | InvalidRequest

subsection \<open>Command line\<close>

text \<open>
  \<open>Array.prototype.indexOf\<close>: the index of the first element equal to the key, or
  \<open>-1\<close>.
\<close>

fun indexOf :: "string list \<Rightarrow> string \<Rightarrow> int" where
  "indexOf [] key = -1"
| "indexOf (a # as) key =
     (if a = key then 0
      else (let i = indexOf as key in if i < 0 then -1 else i + 1))"

text \<open>
  The second parameter of \<open>commandArgument\<close>: \<open>None\<close> is \<open>undefined\<close>, a plain
  value is returned as it is, a function is called and its result returned.
\<close>

datatype default_value = Plain string | Thunk "unit \<Rightarrow> string"

definition commandArgument :: "string list \<Rightarrow> string \<Rightarrow> default_value option \<Rightarrow> error + string" where
  "commandArgument argv key defaultValue =
     (let keyIndex = indexOf argv key in
      if keyIndex < 1 \<or> int (length argv) = keyIndex + 1 then
        (case defaultValue of
           Some (Thunk f) \<Rightarrow> Inr (f ())
         | Some (Plain v) \<Rightarrow> Inr v
         | None \<Rightarrow> Inl (ConfigError (''ERROR: missing '' @ key @ '' <value>'')))
      else Inr (argv ! nat (keyIndex + 1)))"

text \<open>The root path, as line 44 computes it from the arguments of the process.\<close>

definition root :: "string list \<Rightarrow> error + string" where
  "root argv = commandArgument argv ''--root'' (Some (Plain ''/oce-javascript-blog-sample''))"

subsection \<open>Configuration and credential state\<close>

text \<open>
  The fields of \<open>src/config/content.json\<close> that the server reads. A field that is
  missing is \<open>None\<close>. \<open>truthy\<close> is JavaScript's truthiness of such a field: a
  missing field and the empty string are falsy.
\<close>

record config =
  serverUrl :: string
  auth :: "string option"
  clientId :: "string option"

definition truthy :: "string option \<Rightarrow> bool" where
  "truthy v = (case v of None \<Rightarrow> False | Some s \<Rightarrow> s \<noteq> [])"

text \<open>
  A \<open>Date\<close> object holds a time value in milliseconds or \<open>NaN\<close> (an invalid date,
  \<open>None\<close> here). \<open>new Date(ms)\<close> clips: a time value beyond 8.64e15 ms on either side
  of the epoch gives an invalid date.
\<close>

type_synonym date = "int option"

definition new_Date :: "int \<Rightarrow> date" where
  "new_Date ms = (if \<bar>ms\<bar> \<le> 8640000000000000 then Some ms else None)"

definition FIVE_SECONDS_MS :: int where
  "FIVE_SECONDS_MS = 5000"

text \<open>
  The two module variables. \<open>globalAuthValue\<close> is a string or \<open>null\<close> (\<open>None\<close>);
  \<open>globalAuthExpiry\<close> is a \<open>Date\<close> or \<open>null\<close> (\<open>None\<close>). They start as \<open>''\<close> and
  \<open>null\<close>.
\<close>

record auth_state =
  globalAuthValue :: "string option"
  globalAuthExpiry :: "date option"

definition initial_state :: auth_state where
  "initial_state = \<lparr>globalAuthValue = Some [], globalAuthExpiry = None\<rparr>"

definition isAuthNeeded :: "config \<Rightarrow> bool" where
  "isAuthNeeded data = (if truthy (auth data) \<or> truthy (clientId data) then True else False)"

subsection \<open>The Credential Provider: \<open>getBearerAuth\<close>\<close>

text \<open>
  What the identity service answers is an input of the model. \<open>BuildFailure\<close> stands
  for lines 95 to 103 throwing before any request is sent, \<open>NetworkFailure\<close> for
  \<open>fetch\<close> rejecting. Otherwise there is a response with a status code and a body: a
  body that is not JSON, the JSON value \<open>null\<close>, or a JSON value with the two
  properties the code reads, each an \<open>option\<close> (\<open>None\<close> when the property is missing,
  so that reading it gives \<open>undefined\<close>). The model covers an \<open>access_token\<close> that is a
  string and an \<open>expires_in\<close> that is an integer; the text of the request (lines 95 to
  113) is not modelled.
\<close>

record token_json =
  access_token :: "string option"
  expires_in :: "int option"

datatype body = NotJson | JsonNull | Json token_json

datatype fetch_outcome = BuildFailure | NetworkFailure | Response nat body

text \<open>The object \<open>getBearerAuth\<close> returns; an \<open>expiry\<close> of \<open>None\<close> is \<open>undefined\<close>.\<close>

record auth_details =
  authHeaderValue :: string
  expiry :: "int option"

text \<open>The template literal \<open>`Bearer ${access_token}`\<close>.\<close>

definition bearer :: "string option \<Rightarrow> string" where
  "bearer tok = ''Bearer '' @ (case tok of None \<Rightarrow> ''undefined'' | Some t \<Rightarrow> t)"

text \<open>
  \<open>response.json()\<close> (line 114) and the destructuring of line 118. The status code of
  the response is not read anywhere.
\<close>

fun getBearerAuth :: "fetch_outcome \<Rightarrow> error + auth_details" where
  "getBearerAuth BuildFailure = Inl RequestBuildError"
| "getBearerAuth NetworkFailure = Inl FetchError"
| "getBearerAuth (Response status NotJson) = Inl JsonParseError"
| "getBearerAuth (Response status JsonNull) = Inl TypeError"
| "getBearerAuth (Response status (Json responseJSON)) =
     Inr \<lparr>authHeaderValue = bearer (access_token responseJSON),
          expiry = expires_in responseJSON\<rparr>"

subsection \<open>The Credential Store: \<open>getAuthValue\<close>\<close>

text \<open>
  The condition of lines 140 and 141. A comparison with \<open>NaN\<close> (an invalid date) is
  false.
\<close>

definition refresh_condition :: "auth_state \<Rightarrow> int \<Rightarrow> bool" where
  "refresh_condition s currentDate =
     (\<not> truthy (globalAuthValue s) \<or>
      (case globalAuthExpiry s of
         None \<Rightarrow> True
       | Some None \<Rightarrow> False
       | Some (Some t) \<Rightarrow> t - FIVE_SECONDS_MS > currentDate))"

text \<open>
  \<open>getAuthValue\<close> is an \<open>async\<close> function with one \<open>await\<close>, at line 143. It runs
  without interruption up to the \<open>await\<close> and again from the \<open>await\<close> to its
  \<open>return\<close>; other code of the process can run in between. The model has one function
  for each part. \<open>getAuthValue_begin\<close> is the part before the \<open>await\<close>: either the
  function returns \<open>globalAuthValue\<close> without calling \<open>getBearerAuth\<close>
  (\<open>Returned\<close>, with the state it leaves), or it has cleared \<open>globalAuthValue\<close>,
  called \<open>getBearerAuth\<close> and waits for it (\<open>Awaiting\<close>).
\<close>

datatype begin_result = Returned auth_state | Awaiting auth_state

definition getAuthValue_begin :: "config \<Rightarrow> auth_state \<Rightarrow> int \<Rightarrow> begin_result" where
  "getAuthValue_begin data s currentDate =
     (if truthy (auth data) then Returned (s\<lparr>globalAuthValue := auth data\<rparr>)
      else if truthy (clientId data) then
        (if refresh_condition s currentDate
         then Awaiting (s\<lparr>globalAuthValue := Some []\<rparr>)
         else Returned s)
      else Returned (s\<lparr>globalAuthValue := None, globalAuthExpiry := None\<rparr>))"

text \<open>
  Lines 148 to 150: \<open>Date.now()\<close> plus the \<open>expiry\<close> of the answer, as a \<open>Date\<close>. Adding
  \<open>undefined\<close> gives \<open>NaN\<close>, hence an invalid date.
\<close>

definition expiry_date :: "int \<Rightarrow> int option \<Rightarrow> date" where
  "expiry_date currDateMS e = (case e of None \<Rightarrow> None | Some n \<Rightarrow> new_Date (currDateMS + n))"

text \<open>
  \<open>getAuthValue_resume\<close> is the part after the \<open>await\<close>, run on the state of that
  moment, with what \<open>getBearerAuth\<close> gave and the time \<open>Date.now()\<close> reads then. When
  \<open>getBearerAuth\<close> threw, the \<open>await\<close> throws and nothing more is executed.
\<close>

definition getAuthValue_resume ::
  "auth_state \<Rightarrow> error + auth_details \<Rightarrow> int \<Rightarrow> auth_state \<times> (error + string option)" where
  "getAuthValue_resume s r now =
     (case r of
        Inl e \<Rightarrow> (s, Inl e)
      | Inr authDetails \<Rightarrow>
          (let s' = s\<lparr>globalAuthValue := Some (authHeaderValue authDetails),
                      globalAuthExpiry := Some (expiry_date now (expiry authDetails))\<rparr>
           in (s', Inr (globalAuthValue s'))))"

text \<open>
  One call of \<open>getAuthValue\<close> with nothing else running in between: the state before,
  the time at the call, the answer of the identity service and the time when it
  arrives. The result is the state after, what the promise settles to (\<open>Inl\<close> when
  it rejects) and the number of calls to \<open>getBearerAuth\<close>.
\<close>

definition getAuthValue ::
  "config \<Rightarrow> auth_state \<Rightarrow> int \<Rightarrow> fetch_outcome \<Rightarrow> int
     \<Rightarrow> auth_state \<times> (error + string option) \<times> nat" where
  "getAuthValue data s currentDate answer now =
     (case getAuthValue_begin data s currentDate of
        Returned s' \<Rightarrow> (s', Inr (globalAuthValue s'), 0)
      | Awaiting s' \<Rightarrow>
          (case getAuthValue_resume s' (getBearerAuth answer) now of
             (s'', v) \<Rightarrow> (s'', v, 1)))"

text \<open>
  A sequence of calls, one after the other, each with its own times and answer: the
  final state, the settled values in order and the total number of calls to
  \<open>getBearerAuth\<close>.
\<close>

fun getAuthValue_calls ::
  "config \<Rightarrow> auth_state \<Rightarrow> (int \<times> fetch_outcome \<times> int) list
     \<Rightarrow> auth_state \<times> (error + string option) list \<times> nat" where
  "getAuthValue_calls data s [] = (s, [], 0)"
| "getAuthValue_calls data s ((currentDate, answer, now) # cs) =
     (case getAuthValue data s currentDate answer now of
        (s', v, n) \<Rightarrow>
          (case getAuthValue_calls data s' cs of
             (s'', vs, m) \<Rightarrow> (s'', v # vs, n + m)))"

subsection \<open>Calls that overlap\<close>

text \<open>
  The process has one thread. Several calls of \<open>getAuthValue\<close> overlap when a call
  starts while another waits at its \<open>await\<close>. An execution is a list of events:
  \<open>Call i t\<close>, caller \<open>i\<close> calls \<open>getAuthValue\<close> at time \<open>t\<close> and runs up to the
  \<open>await\<close> or to the \<open>return\<close>; \<open>Answer i a t\<close>, the identity service's answer \<open>a\<close>
  to the request of caller \<open>i\<close> arrives at time \<open>t\<close> and caller \<open>i\<close> runs from the
  \<open>await\<close> to the end. The system records the module variables, the callers that
  wait, the number of calls to \<open>getBearerAuth\<close> so far and what each finished call
  settled to.
\<close>

datatype event = Call nat int | Answer nat fetch_outcome int

record system =
  store :: auth_state
  pending :: "nat list"
  provider_calls :: nat
  settled :: "(nat \<times> (error + string option)) list"

definition start_system :: "auth_state \<Rightarrow> system" where
  "start_system s = \<lparr>store = s, pending = [], provider_calls = 0, settled = []\<rparr>"

fun step :: "config \<Rightarrow> system \<Rightarrow> event \<Rightarrow> system" where
  "step data sys (Call i t) =
     (case getAuthValue_begin data (store sys) t of
        Returned s' \<Rightarrow>
          sys\<lparr>store := s', settled := settled sys @ [(i, Inr (globalAuthValue s'))]\<rparr>
      | Awaiting s' \<Rightarrow>
          sys\<lparr>store := s', pending := pending sys @ [i],
              provider_calls := provider_calls sys + 1\<rparr>)"
| "step data sys (Answer i a t) =
     (if i \<in> set (pending sys) then
        (case getAuthValue_resume (store sys) (getBearerAuth a) t of
           (s', v) \<Rightarrow>
             sys\<lparr>store := s', pending := removeAll i (pending sys),
                 settled := settled sys @ [(i, v)]\<rparr>)
      else sys)"

definition run :: "config \<Rightarrow> system \<Rightarrow> event list \<Rightarrow> system" where
  "run data sys evs = foldl (step data) sys evs"

text \<open>
  \<open>N\<close> concurrent calls: every caller calls before any answer arrives, then the
  answers arrive, one for each caller.
\<close>

definition calls_of :: "(nat \<times> int) list \<Rightarrow> event list" where
  "calls_of cs = map (\<lambda>(i, t). Call i t) cs"

definition answers_of :: "(nat \<times> fetch_outcome \<times> int) list \<Rightarrow> event list" where
  "answers_of as = map (\<lambda>(i, a, t). Answer i a t) as"

text \<open>What the promise of a caller settles to, from the answer to its own request.\<close>

definition own_value :: "fetch_outcome \<Rightarrow> error + string option" where
  "own_value a =
     (case getBearerAuth a of Inl e \<Rightarrow> Inl e | Inr d \<Rightarrow> Inr (Some (authHeaderValue d)))"

subsection \<open>The Request Router and the Proxy Request Executor\<close>

text \<open>
  Of the inbound request the handler reads \<open>req.method\<close> and \<open>req.url\<close>. Both are
  inputs of the model. Express mounts the handler at \<open>/content/\<close> and sets \<open>req.url\<close>
  before it calls the handler; Express is not part of this repository and is not
  modelled. For the inbound path \<open>/content/published/api/v1.1/items/123\<close> the
  handler finds \<open>/published/api/v1.1/items/123\<close> in \<open>req.url\<close>. The handler itself
  provides for a \<open>req.url\<close> that does not start with \<open>/\<close> (lines 214 to 216), and the
  model takes any string.
\<close>

text \<open>The field \<open>req_method\<close> is \<open>req.method\<close>.\<close>

record request =
  req_method :: string
  url :: string

text \<open>\<open>String.prototype.charAt\<close>: the empty string when the index is out of range.\<close>

definition charAt :: "string \<Rightarrow> int \<Rightarrow> string" where
  "charAt s i = (if 0 \<le> i \<and> i < int (length s) then [s ! nat i] else [])"

text \<open>Lines 212 to 217.\<close>

definition oceUrl :: "config \<Rightarrow> request \<Rightarrow> string" where
  "oceUrl data req =
     (let content = (if charAt (serverUrl data) (int (length (serverUrl data)) - 1) = ''/''
                     then ''content'' else ''/content'');
          content = (if charAt (url req) 0 \<noteq> ''/'' then content @ ''/'' else content)
      in serverUrl data @ content @ url req)"

text \<open>
  The two parts of the upstream URL as the specification describes them: the server
  URL less the \<open>/\<close> it ends with, if it ends with one, and the request URL less the
  \<open>/\<close> it starts with, if it starts with one. They are used to state what \<open>oceUrl\<close>
  computes, not to define it.
\<close>

definition without_final_slash :: "string \<Rightarrow> string" where
  "without_final_slash s = (if s \<noteq> [] \<and> last s = CHR ''/'' then butlast s else s)"

definition without_leading_slash :: "string \<Rightarrow> string" where
  "without_leading_slash s = (if s \<noteq> [] \<and> hd s = CHR ''/'' then tl s else s)"

text \<open>
  What the handler does to the outside is a list of effects, in order: a request to
  the content server over one of the two transports, with the headers of
  \<open>options\<close>, then, when the content server answers, the status line and headers
  written to the inbound response and the answer's body piped into it. \<open>Thrown\<close>
  stands for an exception that leaves \<open>executeRequest\<close>; what Express or the promise
  does with it is not modelled.
\<close>

datatype transport = Http | Https

record proxy_response =
  statusCode :: nat
  headers :: "(string \<times> string) list"
  chunks :: "string list"

datatype effect =
    UpstreamRequest transport string "(string \<times> string option) list"
  | WriteHead nat "(string \<times> string) list"
  | PipeBody "string list"
  | Thrown error

text \<open>
  \<open>http.request\<close> and \<open>https.request\<close> parse a URL given as a string with \<open>new URL\<close>
  and throw unless its protocol is their own, \<open>http:\<close> or \<open>https:\<close>.
  \<open>url_protocol\<close> is the protocol \<open>new URL\<close> finds, or \<open>None\<close> when it finds no
  scheme and so throws: leading and trailing characters up to the space are
  dropped, tabs and newlines are removed, then the scheme is a letter followed by
  letters, digits, \<open>+\<close>, \<open>-\<close> and \<open>.\<close> up to the first \<open>:\<close>, in lower case.
\<close>

definition c0_or_space :: "char \<Rightarrow> bool" where
  "c0_or_space c = ((of_char c :: nat) \<le> 32)"

definition tab_or_newline :: "char \<Rightarrow> bool" where
  "tab_or_newline c =
     ((of_char c :: nat) = 9 \<or> (of_char c :: nat) = 10 \<or> (of_char c :: nat) = 13)"

definition ascii_upper :: "char \<Rightarrow> bool" where
  "ascii_upper c = (65 \<le> (of_char c :: nat) \<and> (of_char c :: nat) \<le> 90)"

definition ascii_alpha :: "char \<Rightarrow> bool" where
  "ascii_alpha c = (ascii_upper c \<or> (97 \<le> (of_char c :: nat) \<and> (of_char c :: nat) \<le> 122))"

definition scheme_char :: "char \<Rightarrow> bool" where
  "scheme_char c =
     (ascii_alpha c \<or> (48 \<le> (of_char c :: nat) \<and> (of_char c :: nat) \<le> 57) \<or>
      c = CHR ''+'' \<or> c = CHR ''-'' \<or> c = CHR ''.'')"

definition ascii_lower :: "char \<Rightarrow> char" where
  "ascii_lower c = (if ascii_upper c then char_of ((of_char c :: nat) + 32) else c)"

fun scheme_rest :: "string \<Rightarrow> string \<Rightarrow> string option" where
  "scheme_rest acc [] = None"
| "scheme_rest acc (c # cs) =
     (if c = CHR '':'' then Some (acc @ '':'')
      else if scheme_char c then scheme_rest (acc @ [ascii_lower c]) cs
      else None)"

definition url_protocol :: "string \<Rightarrow> string option" where
  "url_protocol u =
     (case filter (\<lambda>c. \<not> tab_or_newline c)
             (rev (dropWhile c0_or_space (rev (dropWhile c0_or_space u)))) of
        [] \<Rightarrow> None
      | c # cs \<Rightarrow> if ascii_alpha c then scheme_rest [ascii_lower c] cs else None)"

fun own_protocol :: "transport \<Rightarrow> string" where
  "own_protocol Http = ''http:''"
| "own_protocol Https = ''https:''"

text \<open>
  What happens to the request to the content server is an input of the model:
  \<open>Refused\<close>, \<open>http.request\<close> (or \<open>https.request\<close>) throws for another reason than
  the protocol (the rest of the URL does not parse, a header value is not allowed);
  \<open>Silent\<close>, the request is sent and the content server never answers, so that the
  callback \<open>writeProxyContent\<close> never runs; \<open>Answered\<close>, it is sent and answered.
\<close>

datatype upstream = Refused | Silent | Answered proxy_response

text \<open>
  \<open>executeRequest\<close>. The transport is chosen by \<open>oceUrl.startsWith('https')\<close>, which
  compares case by case; the transport then throws when the protocol of the URL is
  not its own, as for a URL that starts with \<open>HTTPS://\<close>.
\<close>

definition executeRequest ::
  "string \<Rightarrow> (string \<times> string option) list \<Rightarrow> upstream \<Rightarrow> effect list" where
  "executeRequest u options upstream =
     (let t = (if take 5 u = ''https'' then Https else Http) in
      if url_protocol u \<noteq> Some (own_protocol t) then [Thrown InvalidRequest]
      else
        (case upstream of
           Refused \<Rightarrow> [Thrown InvalidRequest]
         | Silent \<Rightarrow> [UpstreamRequest t u options]
         | Answered proxyResponse \<Rightarrow>
             [UpstreamRequest t u options,
              WriteHead (statusCode proxyResponse) (headers proxyResponse),
              PipeBody (chunks proxyResponse)]))"

text \<open>
  The handler of \<open>app.use('/content/', ...)\<close>, for one request with nothing else
  running in between. It gives the state after, the number of calls to
  \<open>getBearerAuth\<close> and the effects. The promise of \<open>getAuthValue()\<close> has a \<open>then\<close> with
  a single callback: when the promise rejects the callback does not run, and the
  handler has already returned.
\<close>

definition content_handler ::
  "config \<Rightarrow> auth_state \<Rightarrow> request \<Rightarrow> int \<Rightarrow> fetch_outcome \<Rightarrow> int \<Rightarrow> upstream
     \<Rightarrow> auth_state \<times> nat \<times> effect list" where
  "content_handler data s req currentDate answer now upstream =
     (if req_method req \<noteq> ''GET'' then (s, 0, [])
      else
        (let u = oceUrl data req in
         if isAuthNeeded data then
           (case getAuthValue data s currentDate answer now of
              (s', Inr authValue, n) \<Rightarrow>
                (s', n, executeRequest u [(''Authorization'', authValue)] upstream)
            | (s', Inl e, n) \<Rightarrow> (s', n, []))
         else (s, 0, executeRequest u [] upstream)))"

section \<open>Verification\<close>

subsection \<open>Helper facts\<close>

lemmas auth_defs = getAuthValue_def getAuthValue_begin_def getAuthValue_resume_def
  refresh_condition_def truthy_def expiry_date_def new_Date_def FIVE_SECONDS_MS_def
  bearer_def initial_state_def

lemma indexOf_absent: "key \<notin> set argv \<Longrightarrow> indexOf argv key = -1"
  by (induction argv) (auto simp: Let_def)

lemma indexOf_bounds: "-1 \<le> indexOf argv key \<and> indexOf argv key < int (length argv)"
  by (induction argv) (auto simp: Let_def)

text \<open>
  The one call of \<open>commandArgument\<close> in the program passes a default value, so the
  root path is always defined.
\<close>

lemma root_defined: "\<exists>v. root argv = Inr v"
  by (simp add: root_def commandArgument_def Let_def)

text \<open>With a static value configured a call returns at once, whatever the state.\<close>

lemma static_call:
  "truthy (auth data) \<Longrightarrow>
   getAuthValue data s currentDate answer now
     = (s\<lparr>globalAuthValue := auth data\<rparr>, Inr (auth data), 0)"
  by (simp add: getAuthValue_def getAuthValue_begin_def)

text \<open>
  While \<open>globalAuthValue\<close> is empty, every call that starts goes to the identity
  service and leaves the module variables as they are.
\<close>

lemma step_call_empty:
  assumes "\<not> truthy (auth data)" "truthy (clientId data)"
    and "globalAuthValue (store sys) = Some []"
  shows "step data sys (Call i t) =
           sys\<lparr>pending := pending sys @ [i], provider_calls := provider_calls sys + 1\<rparr>"
  using assms
  by (simp add: getAuthValue_begin_def refresh_condition_def truthy_def)

lemma run_calls_empty:
  assumes "\<not> truthy (auth data)" "truthy (clientId data)"
  shows "globalAuthValue (store sys) = Some [] \<Longrightarrow>
         run data sys (calls_of cs) =
           sys\<lparr>pending := pending sys @ map fst cs,
               provider_calls := provider_calls sys + length cs\<rparr>"
proof (induction cs arbitrary: sys)
  case Nil
  then show ?case by (simp add: run_def calls_of_def)
next
  case (Cons c cs)
  obtain i t where c: "c = (i, t)" by (cases c)
  let ?sys' = "sys\<lparr>pending := pending sys @ [i], provider_calls := provider_calls sys + 1\<rparr>"
  have s: "step data sys (Call i t) = ?sys'"
    using assms Cons.prems by (rule step_call_empty)
  have "run data sys (calls_of (c # cs)) = run data ?sys' (calls_of cs)"
    using s by (simp add: run_def calls_of_def c)
  also have "\<dots> = ?sys'\<lparr>pending := pending ?sys' @ map fst cs,
               provider_calls := provider_calls ?sys' + length cs\<rparr>"
    using Cons.prems by (intro Cons.IH) simp
  finally show ?case by (simp add: c)
qed

lemma step_first_call:
  assumes "\<not> truthy (auth data)" "truthy (clientId data)" "refresh_condition s t"
  shows "step data (start_system s) (Call i t) =
           \<lparr>store = s\<lparr>globalAuthValue := Some []\<rparr>, pending = [i],
            provider_calls = 1, settled = []\<rparr>"
  using assms by (simp add: getAuthValue_begin_def start_system_def)

text \<open>
  A call that does not find the condition of lines 140 and 141 true returns the
  cached value and changes nothing. This is so for a non-empty cached value whose
  expiry, less five seconds, is not later than the time of the call: with such a
  cache no call of a group of overlapping calls reaches the identity service (see
  claim C1 for the comparison).
\<close>

lemma step_call_cached:
  assumes "\<not> truthy (auth data)" "truthy (clientId data)"
    and "\<not> refresh_condition (store sys) t"
  shows "step data sys (Call i t) =
           sys\<lparr>settled := settled sys @ [(i, Inr (globalAuthValue (store sys)))]\<rparr>"
  using assms by (simp add: getAuthValue_begin_def)

lemma expired_not_refreshed:
  "truthy (globalAuthValue s) \<Longrightarrow> globalAuthExpiry s = Some (Some e) \<Longrightarrow>
   e - FIVE_SECONDS_MS \<le> t \<Longrightarrow> \<not> refresh_condition s t"
  by (simp add: refresh_condition_def)

lemma run_calls_cached:
  assumes "\<not> truthy (auth data)" "truthy (clientId data)"
  shows "\<forall>(i, t) \<in> set cs. \<not> refresh_condition (store sys) t \<Longrightarrow>
         run data sys (calls_of cs) =
           sys\<lparr>settled := settled sys @ map (\<lambda>(i, t). (i, Inr (globalAuthValue (store sys)))) cs\<rparr>"
proof (induction cs arbitrary: sys)
  case Nil
  then show ?case by (simp add: run_def calls_of_def)
next
  case (Cons c cs)
  obtain i t where c: "c = (i, t)" by (cases c)
  let ?sys' = "sys\<lparr>settled := settled sys @ [(i, Inr (globalAuthValue (store sys)))]\<rparr>"
  have "\<not> refresh_condition (store sys) t" using Cons.prems c by simp
  with assms have s: "step data sys (Call i t) = ?sys'"
    by (rule step_call_cached)
  have r: "run data sys (calls_of (c # cs)) = run data ?sys' (calls_of cs)"
    using s by (simp add: run_def calls_of_def c)
  have "\<forall>(i, t) \<in> set cs. \<not> refresh_condition (store ?sys') t"
    using Cons.prems by simp
  from Cons.IH [OF this] show ?case
    unfolding r by (simp add: c)
qed

lemma overlapping_calls_expired_cache:
  assumes "\<not> truthy (auth data)" "truthy (clientId data)"
    and "truthy (globalAuthValue s)" and "globalAuthExpiry s = Some (Some e)"
    and "\<forall>(i, t) \<in> set cs. e - FIVE_SECONDS_MS \<le> t"
  shows "run data (start_system s) (calls_of cs) =
           \<lparr>store = s, pending = [], provider_calls = 0,
            settled = map (\<lambda>(i, t). (i, Inr (globalAuthValue s))) cs\<rparr>"
proof -
  have "\<forall>(i, t) \<in> set cs. \<not> refresh_condition (store (start_system s)) t"
    using assms(3-5) by (auto simp: start_system_def refresh_condition_def)
  from run_calls_cached [OF assms(1,2) this] show ?thesis
    by (simp add: start_system_def)
qed

text \<open>
  \<open>executeRequest\<close> at two URLs: the spelling \<open>HTTPS\<close> goes to \<open>http.request\<close>, which
  throws, and nothing is sent.
\<close>

lemma executeRequest_https:
  "executeRequest ''https://example.com/oce/content/x'' [] Silent
     = [UpstreamRequest Https ''https://example.com/oce/content/x'' []]"
  by (simp add: executeRequest_def url_protocol_def c0_or_space_def tab_or_newline_def
      ascii_alpha_def ascii_upper_def ascii_lower_def scheme_char_def)

lemma executeRequest_upper_case:
  "executeRequest ''HTTPS://example.com/oce/content/x'' [] (Answered r) = [Thrown InvalidRequest]"
  by (simp add: executeRequest_def url_protocol_def c0_or_space_def tab_or_newline_def
      ascii_alpha_def ascii_upper_def ascii_lower_def scheme_char_def)

text \<open>
  What a caller gets after its \<open>await\<close> depends on the answer to its own request
  only, not on the state at that moment.
\<close>

lemma resume_value: "snd (getAuthValue_resume s (getBearerAuth a) t) = own_value a"
  by (simp add: getAuthValue_resume_def own_value_def Let_def split: sum.splits)

lemma run_answers:
  "distinct (map fst as) \<Longrightarrow> set (map fst as) \<subseteq> set (pending sys) \<Longrightarrow>
   (let sys' = run data sys (answers_of as) in
    settled sys' = settled sys @ map (\<lambda>(i, a, t). (i, own_value a)) as \<and>
    pending sys' = filter (\<lambda>i. i \<notin> set (map fst as)) (pending sys) \<and>
    provider_calls sys' = provider_calls sys)"
proof (induction as arbitrary: sys)
  case Nil
  then show ?case by (simp add: run_def answers_of_def)
next
  case (Cons x as)
  obtain i a t where x: "x = (i, a, t)" by (cases x)
  obtain s' v where r: "getAuthValue_resume (store sys) (getBearerAuth a) t = (s', v)"
    by (cases "getAuthValue_resume (store sys) (getBearerAuth a) t")
  have v: "v = own_value a" using resume_value [of "store sys" a t] r by simp
  let ?sys' = "sys\<lparr>store := s', pending := removeAll i (pending sys),
                 settled := settled sys @ [(i, v)]\<rparr>"
  have i: "i \<in> set (pending sys)" using Cons.prems x by simp
  have s: "step data sys (Answer i a t) = ?sys'" using i r by simp
  have d: "distinct (map fst as)" and ni: "i \<notin> set (map fst as)"
    using Cons.prems x by auto
  have sub: "set (map fst as) \<subseteq> set (pending ?sys')"
    using Cons.prems ni x by auto
  have run: "run data sys (answers_of (x # as)) = run data ?sys' (answers_of as)"
    using s by (simp add: run_def answers_of_def x)
  have f: "filter (\<lambda>j. j \<notin> set (map fst as)) (removeAll i (pending sys))
         = filter (\<lambda>j. j \<notin> set (map fst (x # as))) (pending sys)"
    by (auto simp: x removeAll_filter_not_eq intro!: filter_cong)
  show ?case
    using Cons.IH [OF d sub] f unfolding run Let_def by (simp add: x v)
qed

subsection \<open>The validity window of a fetched credential\<close>

text \<open>
  Claim C1. The claim is that a credential fetched at \<open>T\<close> with expiry \<open>E\<close> seconds
  is returned from the cache for every call before \<open>T + E - 5s\<close> and refreshed, once,
  by a call at or after that moment. The code does neither. In the scenario of the
  specification (token A fetched at time 0 with \<open>expires_in = 3600\<close>) the calls at
  3590 s and at 3596 s both return token A and the identity service is called once in
  all: the comparison of line 141 asks whether the expiry, less five seconds, is
  \<^emph>\<open>later\<close> than now, so a credential past its expiry is never refreshed. With
  \<open>expires_in = 7200\<close>, a call one second after the fetch, well inside the validity
  window, fetches token B.
\<close>

theorem validity_window_scenario:
  "getAuthValue_calls \<lparr>serverUrl = ''https://example.com/oce'', auth = None, clientId = Some ''id''\<rparr>
     initial_state
     [(0, Response 200 (Json \<lparr>access_token = Some ''A'', expires_in = Some 3600\<rparr>), 0),
      (3590000, Response 200 (Json \<lparr>access_token = Some ''B'', expires_in = Some 3600\<rparr>), 3590000),
      (3596000, Response 200 (Json \<lparr>access_token = Some ''B'', expires_in = Some 3600\<rparr>), 3596000)]
   = (\<lparr>globalAuthValue = Some ''Bearer A'', globalAuthExpiry = Some (Some 3600)\<rparr>,
      [Inr (Some ''Bearer A''), Inr (Some ''Bearer A''), Inr (Some ''Bearer A'')], 1)
   \<and>
   getAuthValue_calls \<lparr>serverUrl = ''https://example.com/oce'', auth = None, clientId = Some ''id''\<rparr>
     initial_state
     [(0, Response 200 (Json \<lparr>access_token = Some ''A'', expires_in = Some 7200\<rparr>), 0),
      (1000, Response 200 (Json \<lparr>access_token = Some ''B'', expires_in = Some 7200\<rparr>), 1000)]
   = (\<lparr>globalAuthValue = Some ''Bearer B'', globalAuthExpiry = Some (Some 8200)\<rparr>,
      [Inr (Some ''Bearer A''), Inr (Some ''Bearer B'')], 2)"
  by (simp add: auth_defs)

subsection \<open>Calls that overlap\<close>

text \<open>
  Against claim C2: two callers call on the empty cache before any answer has
  arrived. \<open>getBearerAuth\<close> is called twice, and with the answers A and B the first
  caller gets \<open>Bearer A\<close> and the second \<open>Bearer B\<close>.
\<close>

theorem single_flight_counterexample:
  "run \<lparr>serverUrl = ''https://example.com/oce'', auth = None, clientId = Some ''id''\<rparr>
     (start_system initial_state)
     [Call 0 0, Call 1 0,
      Answer 0 (Response 200 (Json \<lparr>access_token = Some ''A'', expires_in = Some 3600\<rparr>)) 10,
      Answer 1 (Response 200 (Json \<lparr>access_token = Some ''B'', expires_in = Some 3600\<rparr>)) 20]
   = \<lparr>store = \<lparr>globalAuthValue = Some ''Bearer B'', globalAuthExpiry = Some (Some 3620)\<rparr>,
      pending = [], provider_calls = 2,
      settled = [(0, Inr (Some ''Bearer A'')), (1, Inr (Some ''Bearer B''))]\<rparr>"
  by (simp add: run_def start_system_def initial_state_def getAuthValue_begin_def
      refresh_condition_def truthy_def getAuthValue_resume_def bearer_def Let_def
      expiry_date_def new_Date_def)

text \<open>
  Claim C2, as the code has it. Client credentials are configured and the cache is
  empty (\<open>globalAuthValue\<close> is the empty string or \<open>null\<close>: nothing was fetched yet,
  or a failed refresh left it cleared), which is a stale cache for the
  specification and for the code alike. \<open>N\<close> different callers call before any
  answer arrives; then one answer arrives for each caller, in any order. Then
  \<open>getBearerAuth\<close> has been called \<open>N\<close> times, once by each caller, and each caller
  gets the value made from the answer to its own request (or the error of its own
  request). No caller is left waiting.
\<close>

theorem overlapping_calls_each_fetch:
  assumes "\<not> truthy (auth data)" and "truthy (clientId data)"
    and "\<not> truthy (globalAuthValue s)"
    and "distinct (i # map fst cs)"
    and "distinct (map fst as)"
    and "set (map fst as) = set (i # map fst cs)"
  shows "(let sys = run data (start_system s) (calls_of ((i, t) # cs) @ answers_of as) in
          provider_calls sys = length ((i, t) # cs) \<and>
          settled sys = map (\<lambda>(j, a, t'). (j, own_value a)) as \<and>
          length (settled sys) = length ((i, t) # cs) \<and>
          pending sys = [])"
proof -
  have "length (map fst as) = length (i # map fst cs)"
    using assms(4-6) by (metis distinct_card)
  then have len: "length as = length ((i, t) # cs)" by simp
  have stale: "refresh_condition s t"
    using assms(3) by (simp add: refresh_condition_def)
  let ?s1 = "\<lparr>store = s\<lparr>globalAuthValue := Some []\<rparr>, pending = [i],
              provider_calls = 1, settled = []\<rparr>"
  let ?s2 = "?s1\<lparr>pending := pending ?s1 @ map fst cs,
               provider_calls := provider_calls ?s1 + length cs\<rparr>"
  have first: "step data (start_system s) (Call i t) = ?s1"
    using assms(1,2) stale by (rule step_first_call)
  have calls: "run data (start_system s) (calls_of ((i, t) # cs)) = ?s2"
    using first run_calls_empty [OF assms(1,2), of ?s1 cs]
    by (simp add: run_def calls_of_def)
  have split: "run data (start_system s) (calls_of ((i, t) # cs) @ answers_of as)
             = run data ?s2 (answers_of as)"
    using calls by (simp add: run_def)
  have sub: "set (map fst as) \<subseteq> set (pending ?s2)"
    using assms(6) by simp
  have "filter (\<lambda>j. j \<notin> set (map fst as)) (pending ?s2) = []"
    using assms(6) by (auto simp: filter_empty_conv)
  then show ?thesis
    using run_answers [OF assms(5) sub, of data] len unfolding split Let_def by simp
qed

text \<open>
  An instance: callers 0 and 1 call at times 0 and 5 on the empty cache; the answer
  for caller 1 arrives first.
\<close>

theorem overlapping_calls_each_fetch_witness:
  "\<not> truthy (auth \<lparr>serverUrl = ''https://example.com/oce'', auth = None, clientId = Some ''id''\<rparr>)
   \<and> truthy (clientId \<lparr>serverUrl = ''https://example.com/oce'', auth = None, clientId = Some ''id''\<rparr>)
   \<and> \<not> truthy (globalAuthValue initial_state)
   \<and> distinct (0 # map fst [(1::nat, 5::int)])
   \<and> distinct (map fst
        [(1::nat, Response 200 (Json \<lparr>access_token = Some ''B'', expires_in = Some 3600\<rparr>), 10::int),
         (0, Response 200 (Json \<lparr>access_token = Some ''A'', expires_in = Some 3600\<rparr>), 20)])
   \<and> set (map fst
        [(1::nat, Response 200 (Json \<lparr>access_token = Some ''B'', expires_in = Some 3600\<rparr>), 10::int),
         (0, Response 200 (Json \<lparr>access_token = Some ''A'', expires_in = Some 3600\<rparr>), 20)])
       = set (0 # map fst [(1::nat, 5::int)])
   \<and> (let sys = run \<lparr>serverUrl = ''https://example.com/oce'', auth = None, clientId = Some ''id''\<rparr>
                    (start_system initial_state)
                    (calls_of ((0, 0) # [(1, 5)]) @
                     answers_of
                       [(1, Response 200 (Json \<lparr>access_token = Some ''B'', expires_in = Some 3600\<rparr>), 10),
                        (0, Response 200 (Json \<lparr>access_token = Some ''A'', expires_in = Some 3600\<rparr>), 20)])
       in provider_calls sys = 2 \<and>
          settled sys = [(1, Inr (Some ''Bearer B'')), (0, Inr (Some ''Bearer A''))] \<and>
          length (settled sys) = 2 \<and>
          pending sys = [])"
proof -
  let ?data = "\<lparr>serverUrl = ''https://example.com/oce'', auth = None, clientId = Some ''id''\<rparr>"
  let ?as = "[(1::nat, Response 200 (Json \<lparr>access_token = Some ''B'', expires_in = Some 3600\<rparr>), 10::int),
              (0, Response 200 (Json \<lparr>access_token = Some ''A'', expires_in = Some 3600\<rparr>), 20)]"
  have h1: "\<not> truthy (auth ?data)" and h2: "truthy (clientId ?data)"
    by (simp_all add: truthy_def)
  have h3: "\<not> truthy (globalAuthValue initial_state)"
    by (simp add: initial_state_def truthy_def)
  have h4: "distinct (0 # map fst [(1::nat, 5::int)])" by simp
  have h5: "distinct (map fst ?as)" by simp
  have h6: "set (map fst ?as) = set (0 # map fst [(1::nat, 5::int)])" by auto
  show ?thesis
    using h1 h2 h3 h4 h5 h6 overlapping_calls_each_fetch [OF h1 h2 h3 h4 h5 h6, where t = 0]
    by (simp add: own_value_def bearer_def Let_def)
qed

subsection \<open>The stored expiry\<close>

text \<open>
  Claim C3. The claim is that after a refresh at time \<open>T\<close> that returned
  \<open>expires_in = E\<close> seconds the stored expiry is \<open>T\<close> plus \<open>E\<close> seconds. Line 149
  adds the number \<open>E\<close> to a time in milliseconds: a refresh that ends at 2000 ms with
  \<open>expires_in = 3600\<close> stores the expiry 5600 ms, 3.6 seconds later, where \<open>E\<close>
  seconds later is 3602000 ms.
\<close>

theorem stored_expiry_adds_milliseconds:
  "getAuthValue \<lparr>serverUrl = ''https://example.com/oce'', auth = None, clientId = Some ''id''\<rparr>
     initial_state 1000
     (Response 200 (Json \<lparr>access_token = Some ''A'', expires_in = Some 3600\<rparr>)) 2000
   = (\<lparr>globalAuthValue = Some ''Bearer A'', globalAuthExpiry = Some (Some 5600)\<rparr>,
      Inr (Some ''Bearer A''), 1)"
  by (simp add: auth_defs)

subsection \<open>A Credential Provider that fails\<close>

text \<open>
  Against claim C4: token A is fetched at time 0 with \<open>expires_in = 100000\<close>. At
  1000 ms the refresh condition holds, the identity service cannot be reached, and
  the call leaves \<open>globalAuthValue\<close> empty: the state is not what it was before the
  call.
\<close>

theorem provider_failure_counterexample:
  "getAuthValue \<lparr>serverUrl = ''https://example.com/oce'', auth = None, clientId = Some ''id''\<rparr>
     initial_state 0
     (Response 200 (Json \<lparr>access_token = Some ''A'', expires_in = Some 100000\<rparr>)) 0
   = (\<lparr>globalAuthValue = Some ''Bearer A'', globalAuthExpiry = Some (Some 100000)\<rparr>,
      Inr (Some ''Bearer A''), 1)
   \<and>
   getAuthValue \<lparr>serverUrl = ''https://example.com/oce'', auth = None, clientId = Some ''id''\<rparr>
     \<lparr>globalAuthValue = Some ''Bearer A'', globalAuthExpiry = Some (Some 100000)\<rparr> 1000
     NetworkFailure 1010
   = (\<lparr>globalAuthValue = Some [], globalAuthExpiry = Some (Some 100000)\<rparr>,
      Inl FetchError, 1)
   \<and>
   \<lparr>globalAuthValue = Some [], globalAuthExpiry = Some (Some 100000)\<rparr>
     \<noteq> \<lparr>globalAuthValue = Some ''Bearer A'', globalAuthExpiry = Some (Some 100000)\<rparr>"
  by (simp add: auth_defs)

text \<open>
  Claim C4, as the code has it. A call of \<open>getAuthValue\<close> that goes to the Credential
  Provider writes the cached state twice at most: before the provider is called it
  sets \<open>globalAuthValue\<close> to the empty string (line 142) and leaves
  \<open>globalAuthExpiry\<close> as it is; after the provider has answered it writes both. When
  the provider fails, the error reaches the caller of \<open>getAuthValue\<close> and the second
  write does not happen: the state of that moment, whatever other calls have made of
  it in the meantime, stays as it is. So when no other call runs in between, the
  provider has been called once and the state after the failed call is the state
  before it with \<open>globalAuthValue\<close> empty, which is the state before it exactly when
  \<open>globalAuthValue\<close> was already the empty string.
\<close>

theorem provider_failure_clears_value:
  assumes "\<not> truthy (auth data)" and "truthy (clientId data)"
    and "refresh_condition s currentDate"
    and "getBearerAuth answer = Inl e"
  shows "getAuthValue_begin data s currentDate = Awaiting (s\<lparr>globalAuthValue := Some []\<rparr>)
         \<and> getAuthValue_resume s' (getBearerAuth answer) now = (s', Inl e)
         \<and> (i \<in> set (pending sys) \<longrightarrow>
              step data sys (Answer i answer now)
                = sys\<lparr>pending := removeAll i (pending sys),
                      settled := settled sys @ [(i, Inl e)]\<rparr>)
         \<and> getAuthValue data s currentDate answer now
              = (s\<lparr>globalAuthValue := Some []\<rparr>, Inl e, 1)
         \<and> (s\<lparr>globalAuthValue := Some []\<rparr> = s \<longleftrightarrow> globalAuthValue s = Some [])"
proof -
  have same: "s\<lparr>globalAuthValue := Some []\<rparr> = s \<longleftrightarrow> globalAuthValue s = Some []"
    by (cases s) auto
  have starts: "getAuthValue_begin data s currentDate = Awaiting (s\<lparr>globalAuthValue := Some []\<rparr>)"
    using assms(1-3) by (simp add: getAuthValue_begin_def)
  have resume: "getAuthValue_resume s'' (getBearerAuth answer) now = (s'', Inl e)" for s''
    using assms(4) by (simp add: getAuthValue_resume_def)
  have answer: "i \<in> set (pending sys) \<longrightarrow>
      step data sys (Answer i answer now)
        = sys\<lparr>pending := removeAll i (pending sys), settled := settled sys @ [(i, Inl e)]\<rparr>"
    by (simp add: resume)
  have whole: "getAuthValue data s currentDate answer now
      = (s\<lparr>globalAuthValue := Some []\<rparr>, Inl e, 1)"
    by (simp add: getAuthValue_def starts resume)
  show ?thesis
    using same starts resume [of s'] answer whole by blast
qed

text \<open>
  An instance with both cases. Alone: token A with expiry 100000 ms is cached, at
  1000 ms the refresh condition holds and the identity service cannot be reached;
  the value is left empty and the expiry is kept. Among other calls: callers 0 and 1
  call on the empty cache, the answer B for caller 1 arrives at 10 ms, then the
  request of caller 0 fails; the state stays at token B with the expiry 3610 ms.
\<close>

theorem provider_failure_clears_value_witness:
  "\<not> truthy (auth \<lparr>serverUrl = ''https://example.com/oce'', auth = None, clientId = Some ''id''\<rparr>)
   \<and> truthy (clientId \<lparr>serverUrl = ''https://example.com/oce'', auth = None, clientId = Some ''id''\<rparr>)
   \<and> refresh_condition \<lparr>globalAuthValue = Some ''Bearer A'', globalAuthExpiry = Some (Some 100000)\<rparr> 1000
   \<and> getBearerAuth NetworkFailure = Inl FetchError
   \<and> 0 \<in> set (pending
        (run \<lparr>serverUrl = ''https://example.com/oce'', auth = None, clientId = Some ''id''\<rparr>
           (start_system initial_state)
           [Call 0 0, Call 1 0,
            Answer 1 (Response 200 (Json \<lparr>access_token = Some ''B'', expires_in = Some 3600\<rparr>)) 10]))
   \<and> getAuthValue \<lparr>serverUrl = ''https://example.com/oce'', auth = None, clientId = Some ''id''\<rparr>
        \<lparr>globalAuthValue = Some ''Bearer A'', globalAuthExpiry = Some (Some 100000)\<rparr> 1000
        NetworkFailure 2000
      = (\<lparr>globalAuthValue = Some [], globalAuthExpiry = Some (Some 100000)\<rparr>, Inl FetchError, 1)
   \<and> step \<lparr>serverUrl = ''https://example.com/oce'', auth = None, clientId = Some ''id''\<rparr>
        (run \<lparr>serverUrl = ''https://example.com/oce'', auth = None, clientId = Some ''id''\<rparr>
           (start_system initial_state)
           [Call 0 0, Call 1 0,
            Answer 1 (Response 200 (Json \<lparr>access_token = Some ''B'', expires_in = Some 3600\<rparr>)) 10])
        (Answer 0 NetworkFailure 2000)
      = \<lparr>store = \<lparr>globalAuthValue = Some ''Bearer B'', globalAuthExpiry = Some (Some 3610)\<rparr>,
         pending = [], provider_calls = 2,
         settled = [(1, Inr (Some ''Bearer B'')), (0, Inl FetchError)]\<rparr>"
  using provider_failure_clears_value
    [where data = "\<lparr>serverUrl = ''https://example.com/oce'', auth = None, clientId = Some ''id''\<rparr>"
       and s = "\<lparr>globalAuthValue = Some ''Bearer A'', globalAuthExpiry = Some (Some 100000)\<rparr>"
       and currentDate = 1000 and answer = NetworkFailure and e = FetchError and now = 2000
       and s' = "\<lparr>globalAuthValue = Some ''Bearer B'', globalAuthExpiry = Some (Some 3610)\<rparr>"
       and i = 0
       and sys = "run \<lparr>serverUrl = ''https://example.com/oce'', auth = None, clientId = Some ''id''\<rparr>
           (start_system initial_state)
           [Call 0 0, Call 1 0,
            Answer 1 (Response 200 (Json \<lparr>access_token = Some ''B'', expires_in = Some 3600\<rparr>)) 10]"]
  by (simp add: run_def start_system_def auth_defs)

subsection \<open>When \<open>getBearerAuth\<close> fails\<close>

text \<open>
  Against claim C5: the identity service answers 401 with a JSON object that has no
  \<open>access_token\<close>. \<open>getBearerAuth\<close> returns normally, with the header value
  \<open>Bearer undefined\<close>.
\<close>

theorem bearer_auth_counterexample:
  "getBearerAuth (Response 401 (Json \<lparr>access_token = None, expires_in = None\<rparr>))
   = Inr \<lparr>authHeaderValue = ''Bearer undefined'', expiry = None\<rparr>"
  by (simp add: bearer_def)

text \<open>
  Claim C5, as the code has it. \<open>getBearerAuth\<close> fails when the identity-service
  call has a network failure. For a response whose body is a JSON object it returns
  normally whatever the status code and whether or not \<open>access_token\<close> is there: the
  header value is \<open>Bearer\<close>, a space and the token, or \<open>undefined\<close> when the token is
  missing, and the expiry is \<open>expires_in\<close> as it came. It fails in exactly four
  cases: the request cannot be built, the network fails, the body is not JSON, the
  body is \<open>null\<close>.
\<close>

theorem bearer_auth_failures:
  "getBearerAuth NetworkFailure = Inl FetchError
   \<and> getBearerAuth (Response status (Json j))
       = Inr \<lparr>authHeaderValue = ''Bearer '' @ (case access_token j of None \<Rightarrow> ''undefined'' | Some t \<Rightarrow> t),
              expiry = expires_in j\<rparr>
   \<and> (isl (getBearerAuth a) \<longleftrightarrow>
        a = BuildFailure \<or> a = NetworkFailure \<or>
        (\<exists>st. a = Response st NotJson) \<or> (\<exists>st. a = Response st JsonNull))"
proof -
  have "isl (getBearerAuth a) \<longleftrightarrow>
        a = BuildFailure \<or> a = NetworkFailure \<or>
        (\<exists>st. a = Response st NotJson) \<or> (\<exists>st. a = Response st JsonNull)"
    by (cases a rule: getBearerAuth.cases) simp_all
  then show ?thesis by (simp add: bearer_def)
qed

subsection \<open>The upstream URL\<close>

text \<open>
  Against claim C6: the server URL \<open>https://example.com/oce//\<close> ends with \<open>/\<close>, and
  the upstream URL has two \<open>/\<close> before \<open>content\<close>, not one. Only the last character
  of the server URL is looked at.
\<close>

theorem oceUrl_counterexample:
  "oceUrl \<lparr>serverUrl = ''https://example.com/oce//'', auth = None, clientId = Some ''id''\<rparr>
     \<lparr>req_method = ''GET'', url = ''/published/api/v1.1/items/123''\<rparr>
   = ''https://example.com/oce//content/published/api/v1.1/items/123''"
  by (simp add: oceUrl_def charAt_def)

text \<open>
  Claim C6, as the code has it. For every server URL and every \<open>req.url\<close>, the
  upstream URL is the server URL less the \<open>/\<close> it ends with (if it ends with one),
  then \<open>/content/\<close>, then \<open>req.url\<close> less the \<open>/\<close> it starts with (if it starts with
  one): a \<open>/\<close> is put in where one is missing and dropped where there are two, on
  both sides of \<open>content\<close>. Exactly one \<open>/\<close> stands before \<open>content\<close> unless the
  server URL ends with \<open>//\<close>, and exactly one after it unless \<open>req.url\<close> starts with
  \<open>//\<close>.
\<close>

theorem oceUrl_one_separator:
  "oceUrl data req
     = without_final_slash (serverUrl data) @ ''/content/'' @ without_leading_slash (url req)
   \<and> (\<not> suffix ''//'' (serverUrl data) \<longrightarrow>
        \<not> suffix ''/'' (without_final_slash (serverUrl data)))
   \<and> (\<not> prefix ''//'' (url req) \<longrightarrow>
        \<not> prefix ''/'' (without_leading_slash (url req)))"
proof -
  have join: "oceUrl data req
     = without_final_slash (serverUrl data) @ ''/content/'' @ without_leading_slash (url req)"
  proof (cases "serverUrl data" rule: rev_cases)
    case Nil
    then show ?thesis
      by (cases "url req")
         (simp_all add: oceUrl_def charAt_def without_final_slash_def without_leading_slash_def)
  next
    case (snoc b c)
    then show ?thesis
      by (cases "url req")
         (simp_all add: oceUrl_def charAt_def without_final_slash_def without_leading_slash_def
            nth_append)
  qed
  have before: "\<not> suffix ''//'' (serverUrl data) \<longrightarrow>
        \<not> suffix ''/'' (without_final_slash (serverUrl data))"
    by (cases "serverUrl data" rule: rev_cases)
       (auto simp: without_final_slash_def suffix_def)
  have after: "\<not> prefix ''//'' (url req) \<longrightarrow>
        \<not> prefix ''/'' (without_leading_slash (url req))"
    by (cases "url req") (auto simp: without_leading_slash_def prefix_def)
  show ?thesis using join before after by blast
qed

text \<open>
  Three instances. The one of the specification: both \<open>https://example.com/oce\<close> and
  \<open>https://example.com/oce/\<close> give
  \<open>https://example.com/oce/content/published/api/v1.1/items/123\<close>. And a \<open>req.url\<close>
  that does not start with \<open>/\<close>, where lines 214 to 216 put one in.
\<close>

theorem oceUrl_one_separator_witness:
  "\<not> suffix ''//'' ''https://example.com/oce''
   \<and> \<not> suffix ''//'' ''https://example.com/oce/''
   \<and> \<not> prefix ''//'' ''/published/api/v1.1/items/123''
   \<and> \<not> prefix ''//'' ''http://127.0.0.1/published/api/v1.1/items/123''
   \<and> oceUrl \<lparr>serverUrl = ''https://example.com/oce'', auth = None, clientId = Some ''id''\<rparr>
        \<lparr>req_method = ''GET'', url = ''/published/api/v1.1/items/123''\<rparr>
      = ''https://example.com/oce/content/published/api/v1.1/items/123''
   \<and> oceUrl \<lparr>serverUrl = ''https://example.com/oce/'', auth = None, clientId = Some ''id''\<rparr>
        \<lparr>req_method = ''GET'', url = ''/published/api/v1.1/items/123''\<rparr>
      = ''https://example.com/oce/content/published/api/v1.1/items/123''
   \<and> oceUrl \<lparr>serverUrl = ''https://example.com/oce'', auth = None, clientId = Some ''id''\<rparr>
        \<lparr>req_method = ''GET'', url = ''http://127.0.0.1/published/api/v1.1/items/123''\<rparr>
      = ''https://example.com/oce/content/http://127.0.0.1/published/api/v1.1/items/123''
   \<and> \<not> suffix ''/'' (without_final_slash ''https://example.com/oce'')
   \<and> \<not> suffix ''/'' (without_final_slash ''https://example.com/oce/'')
   \<and> \<not> prefix ''/'' (without_leading_slash ''/published/api/v1.1/items/123'')
   \<and> \<not> prefix ''/'' (without_leading_slash ''http://127.0.0.1/published/api/v1.1/items/123'')"
  using oceUrl_one_separator
      [of "\<lparr>serverUrl = ''https://example.com/oce'', auth = None, clientId = Some ''id''\<rparr>"
          "\<lparr>req_method = ''GET'', url = ''/published/api/v1.1/items/123''\<rparr>"]
    oceUrl_one_separator
      [of "\<lparr>serverUrl = ''https://example.com/oce/'', auth = None, clientId = Some ''id''\<rparr>"
          "\<lparr>req_method = ''GET'', url = ''/published/api/v1.1/items/123''\<rparr>"]
    oceUrl_one_separator
      [of "\<lparr>serverUrl = ''https://example.com/oce'', auth = None, clientId = Some ''id''\<rparr>"
          "\<lparr>req_method = ''GET'', url = ''http://127.0.0.1/published/api/v1.1/items/123''\<rparr>"]
  by (simp add: without_final_slash_def without_leading_slash_def suffix_to_prefix)

subsection \<open>Methods other than GET\<close>

text \<open>
  Claim C7. For a request whose method is not \<open>GET\<close> the handler does nothing: no
  request to the content server, nothing written to the inbound response, no call to
  the Credential Provider, and the module variables are what they were.
\<close>

theorem non_get_dropped:
  "req_method req \<noteq> ''GET'' \<Longrightarrow>
   content_handler data s req currentDate answer now upstream = (s, 0, [])"
  by (simp add: content_handler_def)

theorem non_get_dropped_witness:
  "req_method \<lparr>req_method = ''POST'', url = ''/published/api/v1.1/items/123''\<rparr> \<noteq> ''GET''
   \<and> content_handler \<lparr>serverUrl = ''https://example.com/oce'', auth = None, clientId = Some ''id''\<rparr>
        initial_state \<lparr>req_method = ''POST'', url = ''/published/api/v1.1/items/123''\<rparr> 0
        (Response 200 (Json \<lparr>access_token = Some ''A'', expires_in = Some 3600\<rparr>)) 10
        (Answered \<lparr>statusCode = 200, headers = [], chunks = [''x'']\<rparr>)
      = (initial_state, 0, [])"
  using non_get_dropped [of "\<lparr>req_method = ''POST'', url = ''/published/api/v1.1/items/123''\<rparr>"
      "\<lparr>serverUrl = ''https://example.com/oce'', auth = None, clientId = Some ''id''\<rparr>"
      initial_state 0 "Response 200 (Json \<lparr>access_token = Some ''A'', expires_in = Some 3600\<rparr>)" 10
      "Answered \<lparr>statusCode = 200, headers = [], chunks = [''x'']\<rparr>"]
  by simp

subsection \<open>A static authorization value\<close>

text \<open>
  Claim C8. When \<open>data.auth\<close> is configured (a non-empty string), every call of
  \<open>getAuthValue\<close> in a sequence of any length, at any times and from any state,
  returns \<open>data.auth\<close>, and \<open>getBearerAuth\<close> is not called at all.
\<close>

theorem static_auth_bypass:
  "truthy (auth data) \<Longrightarrow>
   snd (getAuthValue_calls data s cs) = (replicate (length cs) (Inr (auth data)), 0)"
proof (induction cs arbitrary: s)
  case Nil
  show ?case by simp
next
  case (Cons c cs)
  obtain currentDate answer now where c: "c = (currentDate, answer, now)"
    by (cases c)
  show ?case
    using Cons.IH [OF Cons.prems, of "s\<lparr>globalAuthValue := auth data\<rparr>"]
    by (cases "getAuthValue_calls data (s\<lparr>globalAuthValue := auth data\<rparr>) cs")
       (simp add: c static_call [OF Cons.prems])
qed

theorem static_auth_bypass_witness:
  "truthy (auth \<lparr>serverUrl = ''https://example.com/oce'', auth = Some ''Basic abc'', clientId = Some ''id''\<rparr>)
   \<and> snd (getAuthValue_calls
        \<lparr>serverUrl = ''https://example.com/oce'', auth = Some ''Basic abc'', clientId = Some ''id''\<rparr>
        initial_state
        [(0, NetworkFailure, 0),
         (9000000, Response 200 (Json \<lparr>access_token = Some ''A'', expires_in = Some 3600\<rparr>), 9000001)])
      = ([Inr (Some ''Basic abc''), Inr (Some ''Basic abc'')], 0)"
  using static_auth_bypass
    [of "\<lparr>serverUrl = ''https://example.com/oce'', auth = Some ''Basic abc'', clientId = Some ''id''\<rparr>"
        initial_state
        "[(0, NetworkFailure, 0),
         (9000000, Response 200 (Json \<lparr>access_token = Some ''A'', expires_in = Some 3600\<rparr>), 9000001)]"]
  by (simp add: truthy_def)

subsection \<open>A missing command-line argument\<close>

text \<open>
  Claim C9. When the key is not among the arguments of the process and no default
  value is passed, \<open>commandArgument\<close> throws the error
  \<open>ERROR: missing <key> <value>\<close>: no fallback value is returned.
\<close>

theorem commandArgument_missing_throws:
  "key \<notin> set argv \<Longrightarrow>
   commandArgument argv key None = Inl (ConfigError (''ERROR: missing '' @ key @ '' <value>''))"
  by (simp add: commandArgument_def indexOf_absent)

theorem commandArgument_missing_throws_witness:
  "''--root'' \<notin> set [''node'', ''server.mjs''] \<and>
   commandArgument [''node'', ''server.mjs''] ''--root'' None
     = Inl (ConfigError ''ERROR: missing --root <value>'')"
  using commandArgument_missing_throws [of "''--root''" "[''node'', ''server.mjs'']"]
  by simp

subsection \<open>A rejected \<open>getAuthValue\<close> in the handler\<close>

text \<open>
  Claim C10. For a \<open>GET\<close> request, when authorization is needed and the promise of
  \<open>getAuthValue()\<close> rejects, the handler has no effect on the outside: no request to
  the content server and nothing written to the inbound response.
\<close>

theorem rejected_auth_unanswered:
  assumes "req_method req = ''GET''" and "isAuthNeeded data"
    and "fst (snd (getAuthValue data s currentDate answer now)) = Inl e"
  shows "snd (snd (content_handler data s req currentDate answer now upstream)) = []"
  using assms by (auto simp: content_handler_def Let_def split: prod.splits sum.splits)

theorem rejected_auth_unanswered_witness:
  "req_method \<lparr>req_method = ''GET'', url = ''/published/api/v1.1/items/123''\<rparr> = ''GET''
   \<and> isAuthNeeded \<lparr>serverUrl = ''https://example.com/oce'', auth = None, clientId = Some ''id''\<rparr>
   \<and> fst (snd (getAuthValue \<lparr>serverUrl = ''https://example.com/oce'', auth = None, clientId = Some ''id''\<rparr>
        initial_state 0 NetworkFailure 10)) = Inl FetchError
   \<and> snd (snd (content_handler \<lparr>serverUrl = ''https://example.com/oce'', auth = None, clientId = Some ''id''\<rparr>
        initial_state \<lparr>req_method = ''GET'', url = ''/published/api/v1.1/items/123''\<rparr> 0 NetworkFailure 10
        (Answered \<lparr>statusCode = 200, headers = [], chunks = [''x'']\<rparr>))) = []"
  using rejected_auth_unanswered
    [of "\<lparr>req_method = ''GET'', url = ''/published/api/v1.1/items/123''\<rparr>"
        "\<lparr>serverUrl = ''https://example.com/oce'', auth = None, clientId = Some ''id''\<rparr>"
        initial_state 0 NetworkFailure 10 FetchError
        "Answered \<lparr>statusCode = 200, headers = [], chunks = [''x'']\<rparr>"]
  by (simp add: isAuthNeeded_def auth_defs)

end
